theory Spec2Isabelle
  imports Complex_Main
begin

section \<open>Data model\<close>

text \<open>
  The dashboard scripts (\<^verbatim>\<open>Home.py\<close>, \<^verbatim>\<open>app.py\<close> and the two pages) load
  \<^verbatim>\<open>breaches.json\<close> into a pandas data frame. A data frame is modelled as the list of its
  rows, in row order; a row is a record of the columns the scripts read. Columns that
  \<^verbatim>\<open>load_data\<close> derives from stored columns are functions of the row.
\<close>

datatype date = Date (year: int) (month: nat) (day: nat)

text \<open>Comparison of \<^verbatim>\<open>datetime.date\<close> values: year, then month, then day.\<close>

definition date_le :: "date \<Rightarrow> date \<Rightarrow> bool" where
  "date_le a b =
     (year a < year b \<or>
      (year a = year b \<and> (month a < month b \<or> (month a = month b \<and> day a \<le> day b))))"

record breach =
  Name :: string
  Domain :: string
  BreachDate :: date
  PwnCount :: int
  DataClasses :: "string list"
  IsVerified :: bool
  IsSensitive :: bool

text \<open>The exceptions the scripts can run into.\<close>

datatype error = IndexError | ValueError | ZeroDivisionError | TypeError

text \<open>\<^verbatim>\<open>df['BreachYear'] = df['BreachDate'].dt.year\<close>\<close>

definition BreachYear :: "breach \<Rightarrow> int" where
  "BreachYear r = year (BreachDate r)"

text \<open>
  Example records: the three of the specification's scenario, and one whose count is zero.
\<close>

definition breach_A :: breach where
  "breach_A = \<lparr>Name = ''A'', Domain = ''a.example'', BreachDate = Date 2019 5 17,
     PwnCount = 5000, DataClasses = [''Emails''], IsVerified = True, IsSensitive = False\<rparr>"

definition breach_B :: breach where
  "breach_B = \<lparr>Name = ''B'', Domain = ''b.example'', BreachDate = Date 2021 11 2,
     PwnCount = 2000000, DataClasses = [''Passwords'', ''Emails''], IsVerified = False,
     IsSensitive = True\<rparr>"

definition breach_C :: breach where
  "breach_C = \<lparr>Name = ''C'', Domain = ''c.example'', BreachDate = Date 2023 2 28,
     PwnCount = 60000000, DataClasses = [''Passwords''], IsVerified = True,
     IsSensitive = True\<rparr>"

definition breach_Z :: breach where
  "breach_Z = \<lparr>Name = ''Z'', Domain = ''z.example'', BreachDate = Date 2022 7 9,
     PwnCount = 0, DataClasses = [], IsVerified = False, IsSensitive = False\<rparr>"

section \<open>Binning with \<^verbatim>\<open>pd.cut\<close>\<close>

text \<open>
  A bin edge is a number or \<^verbatim>\<open>float('inf')\<close>. With the default \<^verbatim>\<open>right=True\<close>,
  \<^verbatim>\<open>pd.cut\<close> looks the value up with \<^verbatim>\<open>bins.searchsorted(x, side='left')\<close>, the number
  of edges strictly below \<^verbatim>\<open>x\<close>; an index of \<^verbatim>\<open>0\<close> or \<^verbatim>\<open>len(bins)\<close> gives NaN
  (here \<open>None\<close>), any other index \<^verbatim>\<open>i\<close> gives \<^verbatim>\<open>labels[i - 1]\<close>. Both calls in the
  scripts pass one label per interval.
\<close>

datatype edge = Fin int | Inf

fun edge_less :: "edge \<Rightarrow> int \<Rightarrow> bool" where
  "edge_less (Fin b) x = (b < x)"
| "edge_less Inf x = False"

definition searchsorted_left :: "edge list \<Rightarrow> int \<Rightarrow> nat" where
  "searchsorted_left bins x = length (takeWhile (\<lambda>b. edge_less b x) bins)"

definition cut :: "edge list \<Rightarrow> 'l list \<Rightarrow> int \<Rightarrow> 'l option" where
  "cut bins labels x =
     (let ids = searchsorted_left bins x
      in if ids = 0 \<or> ids = length bins then None else Some (labels ! (ids - 1)))"

definition size_bins :: "edge list" where
  "size_bins = [Fin 0, Fin 10000, Fin 1000000, Fin 50000000, Inf]"

definition size_labels :: "string list" where
  "size_labels = [''Small (<10k)'', ''Medium (10k-1M)'', ''Large (1M-50M)'', ''Massive (>50M)'']"

text \<open>\<^verbatim>\<open>app.py\<close>: the column is categorical, NaN where no bin holds the count.\<close>

definition BreachSizeCategory :: "breach \<Rightarrow> string option" where
  "BreachSizeCategory r = cut size_bins size_labels (PwnCount r)"

text \<open>\<^verbatim>\<open>Home.py\<close> and the pages add \<^verbatim>\<open>.astype(str)\<close>, which writes NaN as \<^verbatim>\<open>'nan'\<close>.\<close>

definition BreachSizeCategory_str :: "breach \<Rightarrow> string" where
  "BreachSizeCategory_str r = (case BreachSizeCategory r of None \<Rightarrow> ''nan'' | Some l \<Rightarrow> l)"

section \<open>Severity score (\<^verbatim>\<open>app.py\<close>, severity tab)\<close>

definition high_risk_classes :: "string list" where
  "high_risk_classes =
     [''Passwords'', ''Credit cards'', ''Social security numbers'', ''Financial data'',
      ''Health records'', ''Dates of birth'', ''Phone numbers'',
      ''Security questions and answers'']"

text \<open>
  \<^verbatim>\<open>pd.cut(PwnCount, bins=[0, 10000, 1000000, 50000000, inf], labels=[1, 2, 3, 4]).astype(int)\<close>:
  the conversion to \<^verbatim>\<open>int\<close> raises \<^verbatim>\<open>ValueError\<close> on a NaN, that is on a count in no
  bin.
\<close>

definition SizeScore :: "breach \<Rightarrow> error + int" where
  "SizeScore r =
     (case cut size_bins [1, 2, 3, 4] (PwnCount r) of
        None \<Rightarrow> Inl ValueError
      | Some s \<Rightarrow> Inr s)"

definition SensitiveScore :: "breach \<Rightarrow> int" where
  "SensitiveScore r = (if IsSensitive r then 1 else 0) * 3"

text \<open>\<^verbatim>\<open>sum(1 for item in x if item in high_risk_classes)\<close>\<close>

definition HighRiskDataCount :: "breach \<Rightarrow> int" where
  "HighRiskDataCount r =
     sum_list (map (\<lambda>item. 1) (filter (\<lambda>item. item \<in> set high_risk_classes) (DataClasses r)))"

definition DataClassScore :: "breach \<Rightarrow> int" where
  "DataClassScore r = min (HighRiskDataCount r) 3"

definition SeverityScore :: "breach \<Rightarrow> error + int" where
  "SeverityScore r =
     (case SizeScore r of
        Inl e \<Rightarrow> Inl e
      | Inr s \<Rightarrow> Inr (min (s + SensitiveScore r + DataClassScore r) 10))"

definition severity_bins :: "edge list" where
  "severity_bins = [Fin 0, Fin 3, Fin 6, Fin 10]"

definition SeverityCategory :: "int \<Rightarrow> string option" where
  "SeverityCategory s = cut severity_bins [''Low'', ''Medium'', ''High''] s"

text \<open>
  The columns are computed for the whole of \<^verbatim>\<open>filtered_df\<close>: one row whose size score
  cannot be converted makes the conversion, and so the tab, fail.
\<close>

fun severity_df :: "breach list \<Rightarrow> error + (breach \<times> int \<times> string option) list" where
  "severity_df [] = Inr []"
| "severity_df (r # rs) =
     (case SeverityScore r of
        Inl e \<Rightarrow> Inl e
      | Inr s \<Rightarrow>
          (case severity_df rs of
             Inl e \<Rightarrow> Inl e
           | Inr rows \<Rightarrow> Inr ((r, s, SeverityCategory s) # rows)))"

section \<open>Loading: the exploded class rows\<close>

text \<open>
  \<^verbatim>\<open>data_classes_df = df.explode('DataClasses')\<close> has one row per element of a record's
  \<^verbatim>\<open>DataClasses\<close> list, the other columns repeated; pandas keeps a record whose list is
  empty as one row with NaN (here \<open>None\<close>) in that column. A class row is the record it
  comes from and the single class.
\<close>

type_synonym class_row = "breach \<times> string option"

definition explode_row :: "breach \<Rightarrow> class_row list" where
  "explode_row r =
     (if DataClasses r = [] then [(r, None)] else map (\<lambda>c. (r, Some c)) (DataClasses r))"

definition explode :: "breach list \<Rightarrow> class_row list" where
  "explode df = concat (map explode_row df)"

definition load_data :: "breach list \<Rightarrow> breach list \<times> class_row list" where
  "load_data df = (df, explode df)"

text \<open>The \<^verbatim>\<open>Name\<close> column of the class rows.\<close>

definition row_Name :: "class_row \<Rightarrow> string" where
  "row_Name row = Name (fst row)"

section \<open>The sidebar filters\<close>

text \<open>
  \<^verbatim>\<open>st.sidebar.date_input\<close> returns the dates picked so far; the frame is filtered only
  when both ends are there, with both ends included.
\<close>

definition filter_date :: "date list \<Rightarrow> breach list \<Rightarrow> breach list" where
  "filter_date date_range df =
     (if length date_range = 2
      then filter (\<lambda>r. date_le (date_range ! 0) (BreachDate r) \<and>
                       date_le (BreachDate r) (date_range ! 1)) df
      else df)"

definition filter_verification :: "string list \<Rightarrow> breach list \<Rightarrow> breach list" where
  "filter_verification verification_status filtered_df =
     (if verification_status \<noteq> [] then
        if ''Verified'' \<in> set verification_status \<and> ''Unverified'' \<in> set verification_status
        then filtered_df
        else if ''Verified'' \<in> set verification_status
        then filter (\<lambda>r. IsVerified r = True) filtered_df
        else if ''Unverified'' \<in> set verification_status
        then filter (\<lambda>r. IsVerified r = False) filtered_df
        else filtered_df
      else filtered_df)"

definition filter_sensitivity :: "string list \<Rightarrow> breach list \<Rightarrow> breach list" where
  "filter_sensitivity sensitivity_status filtered_df =
     (if sensitivity_status \<noteq> [] then
        if ''Sensitive'' \<in> set sensitivity_status \<and> ''Non-Sensitive'' \<in> set sensitivity_status
        then filtered_df
        else if ''Sensitive'' \<in> set sensitivity_status
        then filter (\<lambda>r. IsSensitive r = True) filtered_df
        else if ''Non-Sensitive'' \<in> set sensitivity_status
        then filter (\<lambda>r. IsSensitive r = False) filtered_df
        else filtered_df
      else filtered_df)"

text \<open>
  \<^verbatim>\<open>filtered_df[filtered_df['BreachSizeCategory'].isin(breach_size)]\<close>, skipped for an empty
  selection. The column is the categorical one in \<^verbatim>\<open>app.py\<close> (where \<^verbatim>\<open>isin\<close> matches NaN
  with NaN) and the string one in \<^verbatim>\<open>Home.py\<close>.
\<close>

definition filter_size :: "(breach \<Rightarrow> 'c) \<Rightarrow> 'c list \<Rightarrow> breach list \<Rightarrow> breach list" where
  "filter_size column breach_size filtered_df =
     (if breach_size \<noteq> [] then filter (\<lambda>r. column r \<in> set breach_size) filtered_df
      else filtered_df)"

text \<open>\<^verbatim>\<open>app.py\<close> only: keep the breaches that have any of the selected data classes.\<close>

definition filter_data_classes ::
  "string list \<Rightarrow> class_row list \<Rightarrow> breach list \<Rightarrow> breach list" where
  "filter_data_classes selected_data_classes data_classes_df filtered_df =
     (if selected_data_classes \<noteq> [] then
        let selected_rows =
              filter (\<lambda>row. snd row \<in> set (map Some selected_data_classes)) data_classes_df
        in filter (\<lambda>r. Name r \<in> set (map row_Name selected_rows)) filtered_df
      else filtered_df)"

definition filtered_df_Home ::
  "breach list \<Rightarrow> date list \<Rightarrow> string list \<Rightarrow> string list \<Rightarrow> string list \<Rightarrow> breach list" where
  "filtered_df_Home df date_range verification_status sensitivity_status breach_size =
     filter_size BreachSizeCategory_str breach_size
       (filter_sensitivity sensitivity_status
         (filter_verification verification_status (filter_date date_range df)))"

definition filtered_df_app ::
  "breach list \<Rightarrow> class_row list \<Rightarrow> date list \<Rightarrow> string list \<Rightarrow> string list \<Rightarrow>
     string option list \<Rightarrow> string list \<Rightarrow> breach list" where
  "filtered_df_app df data_classes_df date_range verification_status sensitivity_status
       breach_size selected_data_classes =
     filter_data_classes selected_data_classes data_classes_df
       (filter_size BreachSizeCategory breach_size
         (filter_sensitivity sensitivity_status
           (filter_verification verification_status (filter_date date_range df))))"

text \<open>
  \<^verbatim>\<open>filtered_data_classes_df = data_classes_df[data_classes_df['Name'].isin(filtered_df['Name'])]\<close>
\<close>

definition filtered_data_classes_df :: "class_row list \<Rightarrow> breach list \<Rightarrow> class_row list" where
  "filtered_data_classes_df data_classes_df filtered_df =
     filter (\<lambda>row. row_Name row \<in> set (map Name filtered_df)) data_classes_df"

text \<open>
  The widgets' defaults: the dates from the first to the last breach, and every size
  category that occurs in the data (\<^verbatim>\<open>unique()\<close> lists values in order of first
  appearance).
\<close>

fun min_date :: "breach list \<Rightarrow> date option" where
  "min_date [] = None"
| "min_date (r # rs) =
     Some (fold (\<lambda>x m. if date_le (BreachDate x) m then BreachDate x else m) rs (BreachDate r))"

fun max_date :: "breach list \<Rightarrow> date option" where
  "max_date [] = None"
| "max_date (r # rs) =
     Some (fold (\<lambda>x m. if date_le m (BreachDate x) then BreachDate x else m) rs (BreachDate r))"

fun unique :: "'a list \<Rightarrow> 'a list" where
  "unique [] = []"
| "unique (x # xs) = x # filter (\<lambda>y. y \<noteq> x) (unique xs)"

definition default_date_range :: "breach list \<Rightarrow> date list" where
  "default_date_range df =
     (case (min_date df, max_date df) of
        (Some lo, Some hi) \<Rightarrow> [lo, hi]
      | _ \<Rightarrow> [])"

definition default_breach_size_app :: "breach list \<Rightarrow> string option list" where
  "default_breach_size_app df = unique (map BreachSizeCategory df)"

definition default_breach_size_Home :: "breach list \<Rightarrow> string list" where
  "default_breach_size_Home df = unique (map BreachSizeCategory_str df)"

section \<open>Aggregations\<close>

text \<open>
  \<^verbatim>\<open>Series.value_counts()\<close> drops NaN, counts each value, and sorts by count, largest
  first. The counts come out of the hash table in order of first appearance
  (\<open>frequency_table\<close>); the sort that follows is pandas' \<^verbatim>\<open>sort_values\<close> with its default
  algorithm, which fixes no order among equal counts, and the scripts add none.
  \<open>value_counts_of xs table\<close> says that \<open>table\<close> is a table the call may return for the
  column \<open>xs\<close>: the rows of the frequency table, each once, the larger count first.
  \<open>value_counts\<close> is the one of these tables that a stable sort gives; the scripts'
  computations below are written with it.
\<close>

definition dropna :: "'a option list \<Rightarrow> 'a list" where
  "dropna column = map the (filter (\<lambda>v. v \<noteq> None) column)"

definition frequency_table :: "'a list \<Rightarrow> ('a \<times> int) list" where
  "frequency_table xs = map (\<lambda>k. (k, int (count_list xs k))) (unique xs)"

definition value_counts :: "'a list \<Rightarrow> ('a \<times> int) list" where
  "value_counts xs = sort_key (\<lambda>p. - snd p) (frequency_table xs)"

definition value_counts_of :: "'a list \<Rightarrow> ('a \<times> int) list \<Rightarrow> bool" where
  "value_counts_of xs table =
     (sorted_wrt (\<lambda>p q. snd q \<le> snd p) table \<and> distinct table \<and>
      set table = set (frequency_table xs))"


text \<open>
  \<^verbatim>\<open>data_class_counts = filtered_data_classes_df['DataClasses'].value_counts().reset_index()\<close>
  and \<^verbatim>\<open>top_data_classes = data_class_counts.head(10)\<close>
\<close>

definition data_class_counts :: "class_row list \<Rightarrow> (string \<times> int) list" where
  "data_class_counts class_rows = value_counts (dropna (map snd class_rows))"

definition top_data_classes :: "(string \<times> int) list \<Rightarrow> (string \<times> int) list" where
  "top_data_classes counts = take 10 counts"

text \<open>
  \<^verbatim>\<open>DataFrame.nlargest(n, 'PwnCount')\<close>: the \<^verbatim>\<open>n\<close> rows with the largest count, largest
  first, the earlier row first among equal counts.
\<close>

definition nlargest :: "nat \<Rightarrow> breach list \<Rightarrow> breach list" where
  "nlargest n filtered_df = take n (sort_key (\<lambda>r. - PwnCount r) filtered_df)"

text \<open>
  Percentages are floating-point numbers in the scripts; they are modelled as exact
  rationals. \<^verbatim>\<open>.round(1)\<close> rounds to one decimal, a half to the even neighbour.
\<close>

definition round_half_even :: "rat \<Rightarrow> int" where
  "round_half_even x =
     (let f = \<lfloor>x\<rfloor>; d = x - of_int f
      in if d < 1 / 2 then f else if 1 / 2 < d then f + 1 else if even f then f else f + 1)"

definition round1 :: "rat \<Rightarrow> rat" where
  "round1 x = of_int (round_half_even (x * 10)) / 10"

text \<open>
  \<^verbatim>\<open>Home.py\<close>, \<^verbatim>\<open>app.py\<close>:
  \<^verbatim>\<open>(top_data_classes['Count'] / top_data_classes['Count'].sum() * 100).round(1)\<close>.
  The division is numpy's, element by element: it does not raise on a zero sum, and the
  only table whose counts sum to zero is the empty one, where there is no element to
  divide.
\<close>

definition Percentage :: "('a \<times> int) list \<Rightarrow> rat list" where
  "Percentage table =
     map (\<lambda>p. round1 (of_int (snd p) / of_int (sum_list (map snd table)) * 100)) table"

text \<open>
  \<^verbatim>\<open>pages/2_Data_Classes_Analysis.py\<close>, on the whole table of counts:
  \<^verbatim>\<open>(data_class_counts['Count'] / len(filtered_df) * 100).round(1)\<close>
\<close>

definition Percentage_of_breaches :: "('a \<times> int) list \<Rightarrow> breach list \<Rightarrow> rat list" where
  "Percentage_of_breaches table filtered_df =
     map (\<lambda>p. round1 (of_int (snd p) / of_int (int (length filtered_df)) * 100)) table"

section \<open>Insights\<close>

text \<open>
  \<^verbatim>\<open>app.py\<close>:
  \<^verbatim>\<open>data_class_counts.iloc[0]['DataClass'] if not data_class_counts.empty else "N/A"\<close>
\<close>

definition most_common_data_class_app :: "(string \<times> int) list \<Rightarrow> string" where
  "most_common_data_class_app counts = (case counts of [] \<Rightarrow> ''N/A'' | p # _ \<Rightarrow> fst p)"

text \<open>
  \<^verbatim>\<open>Home.py\<close>: \<^verbatim>\<open>data_class_counts.iloc[0]['DataClass']\<close>, with no test for an empty
  table; \<^verbatim>\<open>iloc[0]\<close> raises \<^verbatim>\<open>IndexError\<close> there.
\<close>

definition most_common_data_class_Home :: "(string \<times> int) list \<Rightarrow> error + string" where
  "most_common_data_class_Home counts =
     (case counts of [] \<Rightarrow> Inl IndexError | p # _ \<Rightarrow> Inr (fst p))"

text \<open>
  \<^verbatim>\<open>app.py\<close>: the name and count of \<^verbatim>\<open>filtered_df.nlargest(1, 'PwnCount')\<close>, or
  \<^verbatim>\<open>"N/A"\<close> and \<^verbatim>\<open>0\<close> for an empty frame.
\<close>

definition largest_breach_app :: "breach list \<Rightarrow> string \<times> int" where
  "largest_breach_app filtered_df =
     (case nlargest 1 filtered_df of [] \<Rightarrow> (''N/A'', 0) | r # _ \<Rightarrow> (Name r, PwnCount r))"

text \<open>
  \<^verbatim>\<open>Home.py\<close>: \<^verbatim>\<open>filtered_df.loc[filtered_df['PwnCount'].idxmax(), 'Name']\<close>; \<^verbatim>\<open>idxmax\<close>
  of an empty column raises \<^verbatim>\<open>ValueError\<close>.
\<close>

definition largest_breach_Home :: "breach list \<Rightarrow> error + string \<times> int" where
  "largest_breach_Home filtered_df =
     (case nlargest 1 filtered_df of
        [] \<Rightarrow> Inl ValueError
      | r # _ \<Rightarrow> Inr (Name r, PwnCount r))"

text \<open>
  The trend, the same in both scripts; \<^verbatim>\<open>current_year\<close> is \<^verbatim>\<open>datetime.now().year\<close>.
\<close>

definition recent_count :: "int \<Rightarrow> breach list \<Rightarrow> nat" where
  "recent_count current_year filtered_df =
     length (filter (\<lambda>r. BreachYear r \<ge> current_year - 2) filtered_df)"

definition previous_count :: "int \<Rightarrow> breach list \<Rightarrow> nat" where
  "previous_count current_year filtered_df =
     length (filter (\<lambda>r. BreachYear r < current_year - 2 \<and> BreachYear r \<ge> current_year - 4)
       filtered_df)"

definition trend_text :: "int \<Rightarrow> breach list \<Rightarrow> string" where
  "trend_text current_year filtered_df =
     (if recent_count current_year filtered_df > previous_count current_year filtered_df
      then ''increasing'' else ''decreasing'')"

text \<open>
  The insights of \<^verbatim>\<open>Home.py\<close>, computed in the script's order: the first statement
  that raises ends the run.
\<close>

definition insights_Home ::
  "int \<Rightarrow> breach list \<Rightarrow> class_row list \<Rightarrow> error + string \<times> (string \<times> int) \<times> string" where
  "insights_Home current_year filtered_df filtered_classes =
     (case most_common_data_class_Home (data_class_counts filtered_classes) of
        Inl e \<Rightarrow> Inl e
      | Inr most_common \<Rightarrow>
          (case largest_breach_Home filtered_df of
             Inl e \<Rightarrow> Inl e
           | Inr largest \<Rightarrow> Inr (most_common, largest, trend_text current_year filtered_df)))"

definition insights_app ::
  "int \<Rightarrow> breach list \<Rightarrow> class_row list \<Rightarrow> string \<times> (string \<times> int) \<times> string" where
  "insights_app current_year filtered_df filtered_classes =
     (most_common_data_class_app (data_class_counts filtered_classes),
      largest_breach_app filtered_df,
      trend_text current_year filtered_df)"

text \<open>
  \<^verbatim>\<open>pages/1_Timeline_Analysis.py\<close>: \<^verbatim>\<open>filtered_df.groupby('BreachYear').size()\<close> has one
  row per year that occurs, years ascending, and
  \<^verbatim>\<open>yearly_avg = total_breaches / len(yearly_breaches)\<close> divides two Python integers.
\<close>

definition yearly_breaches :: "breach list \<Rightarrow> (int \<times> int) list" where
  "yearly_breaches filtered_df =
     map (\<lambda>y. (y, int (count_list (map BreachYear filtered_df) y)))
       (sort (unique (map BreachYear filtered_df)))"

definition yearly_avg :: "breach list \<Rightarrow> error + rat" where
  "yearly_avg filtered_df =
     (let total_breaches = length filtered_df
      in if length (yearly_breaches filtered_df) = 0 then Inl ZeroDivisionError
         else Inr (of_nat total_breaches / of_nat (length (yearly_breaches filtered_df))))"

section \<open>Search (\<^verbatim>\<open>app.py\<close>)\<close>

text \<open>
  \<^verbatim>\<open>Series.str.contains(search_term, case=False)\<close> reads the term as a regular expression.
  What a term matches is the parameter \<open>contains\<close>, so that a statement about the search
  holds for whatever the matching does; \<open>contains_ci\<close> is the matching of a term without
  special characters, a substring test that ignores case.
\<close>

definition lower :: "char \<Rightarrow> char" where
  "lower c =
     (if of_char CHR ''A'' \<le> (of_char c :: nat) \<and> (of_char c :: nat) \<le> of_char CHR ''Z''
      then char_of (of_char c + (32 :: nat)) else c)"

fun substring :: "string \<Rightarrow> string \<Rightarrow> bool" where
  "substring t [] = (t = [])"
| "substring t (c # cs) = (take (length t) (c # cs) = t \<or> substring t cs)"

definition contains_ci :: "string \<Rightarrow> string \<Rightarrow> bool" where
  "contains_ci search_term s = substring (map lower search_term) (map lower s)"

definition name_domain_matches ::
  "(string \<Rightarrow> string \<Rightarrow> bool) \<Rightarrow> string \<Rightarrow> breach list \<Rightarrow> breach list" where
  "name_domain_matches contains search_term filtered_df =
     filter (\<lambda>r. contains search_term (Name r) \<or> contains search_term (Domain r)) filtered_df"

text \<open>
  The class rows are those of the whole data set, not of the filtered one. On a NaN class
  \<^verbatim>\<open>str.contains\<close> gives NaN, and a mask that holds a NaN cannot select rows: pandas raises
  \<^verbatim>\<open>ValueError\<close>.
\<close>

definition data_class_matches ::
  "(string \<Rightarrow> string \<Rightarrow> bool) \<Rightarrow> string \<Rightarrow> class_row list \<Rightarrow> error + class_row list" where
  "data_class_matches contains search_term data_classes_df =
     (if list_ex (\<lambda>row. snd row = None) data_classes_df then Inl ValueError
      else Inr (filter (\<lambda>row. case snd row of None \<Rightarrow> False | Some c \<Rightarrow> contains search_term c)
                  data_classes_df))"

text \<open>
  \<^verbatim>\<open>pd.concat([name_domain_matches, filtered_df[filtered_df['Name'].isin(data_class_matches['Name'])]])\<close>
\<close>

definition search_concat :: "breach list \<Rightarrow> class_row list \<Rightarrow> breach list \<Rightarrow> breach list" where
  "search_concat matches class_matches filtered_df =
     matches @ filter (\<lambda>r. Name r \<in> set (map row_Name class_matches)) filtered_df"

text \<open>
  \<^verbatim>\<open>DataFrame.drop_duplicates()\<close> hashes the cells of every column. Each row holds its
  \<^verbatim>\<open>DataClasses\<close> list, and a list cannot be hashed: on a frame with a row pandas raises
  \<^verbatim>\<open>TypeError\<close>; an empty frame is returned as it is.
\<close>

definition drop_duplicates :: "breach list \<Rightarrow> error + breach list" where
  "drop_duplicates frame = (if frame = [] then Inr [] else Inl TypeError)"

text \<open>The body of \<^verbatim>\<open>if search_term:\<close>.\<close>

definition search_results ::
  "(string \<Rightarrow> string \<Rightarrow> bool) \<Rightarrow> string \<Rightarrow> breach list \<Rightarrow> class_row list \<Rightarrow> error + breach list" where
  "search_results contains search_term filtered_df data_classes_df =
     (let matches = name_domain_matches contains search_term filtered_df
      in case data_class_matches contains search_term data_classes_df of
           Inl e \<Rightarrow> Inl e
         | Inr class_matches \<Rightarrow> drop_duplicates (search_concat matches class_matches filtered_df))"

section \<open>Size category\<close>

lemma searchsorted_size_bins:
  "searchsorted_left size_bins x =
     (if x \<le> 0 then 0 else if x \<le> 10000 then 1 else if x \<le> 1000000 then 2
      else if x \<le> 50000000 then 3 else 4)"
  by (simp add: searchsorted_left_def size_bins_def)

lemma length_size_bins: "length size_bins = 5"
  by (simp add: size_bins_def)

text \<open>
  C5. The size category is a function of \<^verbatim>\<open>PwnCount\<close> alone, with the right-closed bins
  \<open>(0, 10000]\<close> Small, \<open>(10000, 1000000]\<close> Medium, \<open>(1000000, 50000000]\<close> Large and
  \<open>(50000000, \<infinity>)\<close> Massive; a count of \<open>0\<close> (or below) is in no bin: the category is NaN
  in \<^verbatim>\<open>app.py\<close> and the string \<^verbatim>\<open>'nan'\<close> in \<^verbatim>\<open>Home.py\<close>, none of the four labels.
\<close>

theorem size_category_buckets:
  "BreachSizeCategory r =
     (if PwnCount r \<le> 0 then None
      else if PwnCount r \<le> 10000 then Some ''Small (<10k)''
      else if PwnCount r \<le> 1000000 then Some ''Medium (10k-1M)''
      else if PwnCount r \<le> 50000000 then Some ''Large (1M-50M)''
      else Some ''Massive (>50M)'')
   \<and> BreachSizeCategory_str r =
     (if PwnCount r \<le> 0 then ''nan''
      else if PwnCount r \<le> 10000 then ''Small (<10k)''
      else if PwnCount r \<le> 1000000 then ''Medium (10k-1M)''
      else if PwnCount r \<le> 50000000 then ''Large (1M-50M)''
      else ''Massive (>50M)'')"
  by (simp add: BreachSizeCategory_str_def BreachSizeCategory_def cut_def Let_def
      searchsorted_size_bins length_size_bins size_labels_def)

section \<open>Severity\<close>

lemma SizeScore_buckets:
  "SizeScore r =
     (if PwnCount r \<le> 0 then Inl ValueError
      else if PwnCount r \<le> 10000 then Inr 1
      else if PwnCount r \<le> 1000000 then Inr 2
      else if PwnCount r \<le> 50000000 then Inr 3
      else Inr 4)"
  by (simp add: SizeScore_def cut_def Let_def searchsorted_size_bins length_size_bins)

lemma HighRiskDataCount_length:
  "HighRiskDataCount r =
     int (length (filter (\<lambda>item. item \<in> set high_risk_classes) (DataClasses r)))"
  unfolding HighRiskDataCount_def by (induction "DataClasses r" arbitrary: r) (simp_all add: sum_list_triv)

lemma SeverityCategory_buckets:
  "SeverityCategory s =
     (if s \<le> 0 then None else if s \<le> 3 then Some ''Low''
      else if s \<le> 6 then Some ''Medium'' else if s \<le> 10 then Some ''High'' else None)"
  by (simp add: SeverityCategory_def cut_def Let_def searchsorted_left_def severity_bins_def)


text \<open>
  A record whose count is \<open>0\<close> has no size score: the score is none of the values the
  formula could give it (\<open>1\<close> to \<open>4\<close> for a record that is not sensitive and has no
  high-risk class); the conversion raises.
\<close>

theorem severity_score_counterexample:
  "PwnCount breach_Z = 0
   \<and> SeverityScore breach_Z = Inl ValueError
   \<and> SeverityScore breach_Z \<noteq> Inr 1 \<and> SeverityScore breach_Z \<noteq> Inr 2
   \<and> SeverityScore breach_Z \<noteq> Inr 3 \<and> SeverityScore breach_Z \<noteq> Inr 4"
  by (simp add: SeverityScore_def SizeScore_buckets breach_Z_def)

text \<open>
  C4 (as amended). For a record with a count of at least 1 the severity score is
  \<open>min(10, sizeScore + sensitiveScore + dataClassScore)\<close>: the size score is 1, 2, 3 or 4 by
  the bins of the size category, the sensitive score is 3 for a sensitive record and 0
  otherwise, the data class score is the number of the record's data classes in the
  high-risk list, capped at 3. A count of \<open>0\<close> or less is in no bin, and the computation
  raises \<^verbatim>\<open>ValueError\<close>. A record with count 2000000, sensitive, with the classes Passwords,
  Usernames and Credit cards scores 8, which is High.
\<close>

theorem severity_score_formula:
  "SeverityScore r =
     (if PwnCount r \<le> 0 then Inl ValueError
      else Inr (min 10
        ((if PwnCount r \<le> 10000 then 1 else if PwnCount r \<le> 1000000 then 2
          else if PwnCount r \<le> 50000000 then 3 else 4)
         + (if IsSensitive r then 3 else 0)
         + min 3 (int (length (filter (\<lambda>c. c \<in> set high_risk_classes) (DataClasses r)))))))
   \<and> SeverityScore \<lparr>Name = ''B'', Domain = ''b.example'', BreachDate = Date 2020 1 1,
        PwnCount = 2000000, DataClasses = [''Passwords'', ''Usernames'', ''Credit cards''],
        IsVerified = False, IsSensitive = True\<rparr> = Inr 8
   \<and> SeverityCategory 8 = Some ''High''"
proof (intro conjI)
  show "SeverityScore r =
     (if PwnCount r \<le> 0 then Inl ValueError
      else Inr (min 10
        ((if PwnCount r \<le> 10000 then 1 else if PwnCount r \<le> 1000000 then 2
          else if PwnCount r \<le> 50000000 then 3 else 4)
         + (if IsSensitive r then 3 else 0)
         + min 3 (int (length (filter (\<lambda>c. c \<in> set high_risk_classes) (DataClasses r)))))))"
    by (simp add: SeverityScore_def SizeScore_buckets SensitiveScore_def DataClassScore_def
        HighRiskDataCount_length min.commute)
next
  show "SeverityScore \<lparr>Name = ''B'', Domain = ''b.example'', BreachDate = Date 2020 1 1,
        PwnCount = 2000000, DataClasses = [''Passwords'', ''Usernames'', ''Credit cards''],
        IsVerified = False, IsSensitive = True\<rparr> = Inr 8"
    by (simp add: SeverityScore_def SizeScore_buckets SensitiveScore_def DataClassScore_def
        HighRiskDataCount_length high_risk_classes_def)
next
  show "SeverityCategory 8 = Some ''High''"
    by (simp add: SeverityCategory_buckets)
qed

lemma SeverityScore_range:
  assumes "SeverityScore r = Inr s"
  shows "1 \<le> s \<and> s \<le> 10"
  using assms
  by (auto simp: SeverityScore_def SizeScore_buckets SensitiveScore_def DataClassScore_def
      HighRiskDataCount_length split: if_splits)

lemma SeverityScore_defined:
  "(\<exists>s. SeverityScore r = Inr s) \<longleftrightarrow> 1 \<le> PwnCount r"
  by (simp add: SeverityScore_def SizeScore_buckets)

text \<open>
  C9. For a record with \<^verbatim>\<open>PwnCount >= 1\<close> the severity score exists, lies between 1 and 10,
  and its category is Low, Medium or High (never the unbinned score 0); for a record with
  \<^verbatim>\<open>PwnCount < 1\<close> the computation raises \<^verbatim>\<open>ValueError\<close>: the score is defined only from a
  count of 1 on.
\<close>

theorem severity_defined_range:
  "(1 \<le> PwnCount r \<longrightarrow>
      (\<exists>s. SeverityScore r = Inr s \<and> 1 \<le> s \<and> s \<le> 10 \<and>
           SeverityCategory s \<in> {Some ''Low'', Some ''Medium'', Some ''High''}))
   \<and> (PwnCount r < 1 \<longrightarrow> SeverityScore r = Inl ValueError)"
proof (intro conjI impI)
  assume pos: "1 \<le> PwnCount r"
  then obtain s where s: "SeverityScore r = Inr s"
    using SeverityScore_defined [of r] by blast
  from SeverityScore_range [OF s] have rng: "1 \<le> s \<and> s \<le> 10" .
  then have "SeverityCategory s \<in> {Some ''Low'', Some ''Medium'', Some ''High''}"
    by (simp add: SeverityCategory_buckets)
  with s rng show "\<exists>s. SeverityScore r = Inr s \<and> 1 \<le> s \<and> s \<le> 10 \<and>
           SeverityCategory s \<in> {Some ''Low'', Some ''Medium'', Some ''High''}"
    by blast
next
  assume "PwnCount r < 1"
  then show "SeverityScore r = Inl ValueError"
    by (simp add: SeverityScore_def SizeScore_buckets)
qed

theorem severity_defined_range_witness:
  "1 \<le> PwnCount breach_A
   \<and> (\<exists>s. SeverityScore breach_A = Inr s \<and> 1 \<le> s \<and> s \<le> 10 \<and>
           SeverityCategory s \<in> {Some ''Low'', Some ''Medium'', Some ''High''})
   \<and> PwnCount breach_Z < 1
   \<and> SeverityScore breach_Z = Inl ValueError"
proof -
  have a: "1 \<le> PwnCount breach_A"
    by (simp add: breach_A_def)
  have z: "PwnCount breach_Z < 1"
    by (simp add: breach_Z_def)
  from a z severity_defined_range [of breach_A] severity_defined_range [of breach_Z]
  show ?thesis by blast
qed

text \<open>The whole tab: the frame of scores exists exactly when every row has a count of at
  least 1.\<close>

lemma severity_df_defined:
  "(\<exists>rows. severity_df rs = Inr rows) \<longleftrightarrow> list_all (\<lambda>r. 1 \<le> PwnCount r) rs"
proof (induction rs)
  case Nil
  show ?case by simp
next
  case (Cons r rs)
  show ?case
  proof (cases "1 \<le> PwnCount r")
    case True
    then obtain s where "SeverityScore r = Inr s"
      using SeverityScore_defined [of r] by blast
    with True Cons show ?thesis by (auto split: sum.splits)
  next
    case False
    then have "SeverityScore r = Inl ValueError"
      by (simp add: SeverityScore_def SizeScore_buckets)
    with False show ?thesis by simp
  qed
qed

section \<open>Frequency tables\<close>

lemma set_unique: "set (unique xs) = set xs"
  by (induction xs) auto

lemma distinct_unique: "distinct (unique xs)"
  by (induction xs) (auto simp: set_unique)


lemma set_value_counts:
  "set (value_counts xs) = (\<lambda>k. (k, int (count_list xs k))) ` set xs"
  by (simp add: value_counts_def frequency_table_def set_unique)

lemma distinct_value_counts: "distinct (map fst (value_counts xs))"
proof -
  have "map fst (value_counts xs) = map fst (sort_key (\<lambda>p. - snd p) (frequency_table xs))"
    by (simp add: value_counts_def)
  have d: "distinct (frequency_table xs)"
    by (simp add: frequency_table_def distinct_map distinct_unique inj_on_def)
  have i: "inj_on fst (set (frequency_table xs))"
    by (auto simp: frequency_table_def inj_on_def)
  have "distinct (value_counts xs)"
    unfolding value_counts_def using d by simp
  moreover have "inj_on fst (set (value_counts xs))"
    unfolding value_counts_def using i by simp
  ultimately show ?thesis
    by (simp add: distinct_map)
qed








section \<open>Trend\<close>

lemma recent_count_card:
  "recent_count cy fdf = card {i. i < length fdf \<and> cy - 2 \<le> BreachYear (fdf ! i)}"
  by (simp add: recent_count_def length_filter_conv_card)

lemma previous_count_card:
  "previous_count cy fdf =
     card {i. i < length fdf \<and> cy - 4 \<le> BreachYear (fdf ! i) \<and> BreachYear (fdf ! i) < cy - 2}"
proof -
  have "{i. i < length fdf \<and> BreachYear (fdf ! i) < cy - 2 \<and> cy - 4 \<le> BreachYear (fdf ! i)} =
        {i. i < length fdf \<and> cy - 4 \<le> BreachYear (fdf ! i) \<and> BreachYear (fdf ! i) < cy - 2}"
    by blast
  then show ?thesis
    by (simp add: previous_count_def length_filter_conv_card)
qed

text \<open>
  C3. The trend compares the number of filtered rows whose breach year is at least
  \<open>current_year - 2\<close> (recent) with the number whose breach year is in
  \<open>[current_year - 4, current_year - 2)\<close> (previous). It is \<^verbatim>\<open>increasing\<close> exactly when
  recent is greater than previous and \<^verbatim>\<open>decreasing\<close> otherwise; equal counts give
  \<^verbatim>\<open>decreasing\<close>.
\<close>

theorem trend_text_rule:
  "recent_count cy fdf = card {i. i < length fdf \<and> cy - 2 \<le> BreachYear (fdf ! i)}
   \<and> previous_count cy fdf =
       card {i. i < length fdf \<and> cy - 4 \<le> BreachYear (fdf ! i) \<and> BreachYear (fdf ! i) < cy - 2}
   \<and> (trend_text cy fdf = ''increasing'') = (previous_count cy fdf < recent_count cy fdf)
   \<and> (trend_text cy fdf = ''decreasing'') = (recent_count cy fdf \<le> previous_count cy fdf)
   \<and> (recent_count cy fdf = previous_count cy fdf \<longrightarrow> trend_text cy fdf = ''decreasing'')"
  using recent_count_card [of cy fdf] previous_count_card [of cy fdf]
  by (simp add: trend_text_def)

theorem trend_text_rule_witness:
  "recent_count 2023 [breach_A, breach_B] = previous_count 2023 [breach_A, breach_B]
   \<and> trend_text 2023 [breach_A, breach_B] = ''decreasing''"
proof -
  have h: "recent_count 2023 [breach_A, breach_B] = previous_count 2023 [breach_A, breach_B]"
    by (simp add: recent_count_def previous_count_def BreachYear_def breach_A_def breach_B_def)
  with trend_text_rule [of 2023 "[breach_A, breach_B]"] show ?thesis
    by blast
qed

section \<open>Search results\<close>

lemma set_name_domain_matches: "set (name_domain_matches c t fdf) \<subseteq> set fdf"
  by (simp add: name_domain_matches_def)

lemma set_search_concat:
  "set (search_concat (name_domain_matches c t fdf) cm fdf) \<subseteq> set fdf"
  using set_name_domain_matches [of c t fdf] by (auto simp: search_concat_def)

text \<open>
  C10. Whatever the search term matches, the rows the search puts together are rows of
  \<^verbatim>\<open>filtered_df\<close>: the class rows are matched over the whole data set, but they only
  select rows of \<^verbatim>\<open>filtered_df\<close> by name. So the concatenated frame, any de-duplication of
  it, and every frame the search returns hold filtered rows only.
\<close>

theorem search_within_filtered:
  "set (search_concat (name_domain_matches contains search_term filtered_df) class_matches
          filtered_df) \<subseteq> set filtered_df
   \<and> set (unique (search_concat (name_domain_matches contains search_term filtered_df)
          class_matches filtered_df)) \<subseteq> set filtered_df
   \<and> (\<forall>results. search_results contains search_term filtered_df data_classes_df = Inr results
         \<longrightarrow> set results \<subseteq> set filtered_df)"
proof (intro conjI allI impI)
  show "set (search_concat (name_domain_matches contains search_term filtered_df) class_matches
          filtered_df) \<subseteq> set filtered_df"
    by (rule set_search_concat)
  then show "set (unique (search_concat (name_domain_matches contains search_term filtered_df)
          class_matches filtered_df)) \<subseteq> set filtered_df"
    by (simp only: set_unique)
next
  fix results
  assume "search_results contains search_term filtered_df data_classes_df = Inr results"
  then have "results = []"
    by (simp add: search_results_def drop_duplicates_def Let_def split: sum.splits if_splits)
  then show "set results \<subseteq> set filtered_df"
    by simp
qed

theorem search_within_filtered_witness:
  "search_results contains_ci ''zip'' [breach_C] (explode [breach_A, breach_B, breach_C]) = Inr []
   \<and> set ([] :: breach list) \<subseteq> set [breach_C]
   \<and> set (search_concat (name_domain_matches contains_ci ''pass'' [breach_C])
            [(breach_B, Some ''Passwords''), (breach_C, Some ''Passwords'')] [breach_C])
        \<subseteq> set [breach_C]"
proof -
  have h: "search_results contains_ci ''zip'' [breach_C] (explode [breach_A, breach_B, breach_C])
      = Inr []"
    by code_simp
  from search_within_filtered [of contains_ci "''pass''" "[breach_C]"
      "[(breach_B, Some ''Passwords''), (breach_C, Some ''Passwords'')]"]
  have c: "set (search_concat (name_domain_matches contains_ci ''pass'' [breach_C])
            [(breach_B, Some ''Passwords''), (breach_C, Some ''Passwords'')] [breach_C])
        \<subseteq> set [breach_C]"
    by (rule conjunct1)
  from search_within_filtered [of contains_ci "''zip''" "[breach_C]" "[]"
      "explode [breach_A, breach_B, breach_C]"] h
  have "set ([] :: breach list) \<subseteq> set [breach_C]"
    by simp
  with h c show ?thesis
    by (intro conjI)
qed

section \<open>Filtered records and their class rows\<close>

lemma set_filter_date: "set (filter_date dr df) \<subseteq> set df"
  by (simp add: filter_date_def)

lemma set_filter_verification: "set (filter_verification vs df) \<subseteq> set df"
  by (simp add: filter_verification_def)

lemma set_filter_sensitivity: "set (filter_sensitivity ss df) \<subseteq> set df"
  by (simp add: filter_sensitivity_def)

lemma set_filter_size: "set (filter_size col bs df) \<subseteq> set df"
  by (simp add: filter_size_def)

lemma set_filter_data_classes: "set (filter_data_classes sel dcdf df) \<subseteq> set df"
  by (simp add: filter_data_classes_def Let_def)

lemma set_filtered_df_Home: "set (filtered_df_Home df dr vs ss bs) \<subseteq> set df"
  unfolding filtered_df_Home_def
  using set_filter_size set_filter_sensitivity set_filter_verification set_filter_date
  by (meson subset_trans)

lemma set_filtered_df_app: "set (filtered_df_app df dcdf dr vs ss bs sel) \<subseteq> set df"
  unfolding filtered_df_app_def
  using set_filter_data_classes set_filter_size set_filter_sensitivity set_filter_verification
    set_filter_date
  by (meson subset_trans)

lemma set_explode:
  "set (explode df) =
     {(r, None) | r. r \<in> set df \<and> DataClasses r = []} \<union>
     {(r, Some c) | r c. r \<in> set df \<and> c \<in> set (DataClasses r)}"
  by (auto simp: explode_def explode_row_def split: if_splits)

lemma class_rows_membership:
  assumes "set fdf \<subseteq> set df"
  shows "set (map row_Name (filtered_data_classes_df (explode df) fdf)) \<subseteq> set (map Name fdf)
    \<and> (\<forall>r \<in> set fdf. DataClasses r \<noteq> [] \<longrightarrow>
          (\<exists>c. (r, Some c) \<in> set (filtered_data_classes_df (explode df) fdf)))"
proof (intro conjI ballI impI)
  show "set (map row_Name (filtered_data_classes_df (explode df) fdf)) \<subseteq> set (map Name fdf)"
    by (auto simp: filtered_data_classes_df_def)
next
  fix r
  assume r: "r \<in> set fdf" and ne: "DataClasses r \<noteq> []"
  from ne obtain c where c: "c \<in> set (DataClasses r)"
    by (cases "DataClasses r") auto
  from r assms have "r \<in> set df" by blast
  with c have "(r, Some c) \<in> set (explode df)"
    by (simp add: set_explode)
  moreover have "row_Name (r, Some c) \<in> set (map Name fdf)"
    using r by (simp add: row_Name_def)
  ultimately have "(r, Some c) \<in> set (filtered_data_classes_df (explode df) fdf)"
    by (simp add: filtered_data_classes_df_def)
  then show "\<exists>c. (r, Some c) \<in> set (filtered_data_classes_df (explode df) fdf)" ..
qed

text \<open>
  C8. Under any filter, in \<^verbatim>\<open>app.py\<close> and in \<^verbatim>\<open>Home.py\<close>: every name in the filtered
  class rows is the name of a filtered record, and every filtered record with a non-empty
  \<^verbatim>\<open>DataClasses\<close> list has a row among the filtered class rows.
\<close>

theorem class_rows_round_trip:
  "(let filtered_df = filtered_df_app df (explode df) dr vs ss bs sel;
        class_rows = filtered_data_classes_df (explode df) filtered_df
    in set (map row_Name class_rows) \<subseteq> set (map Name filtered_df)
       \<and> (\<forall>r \<in> set filtered_df. DataClasses r \<noteq> [] \<longrightarrow> (\<exists>c. (r, Some c) \<in> set class_rows)))
   \<and> (let filtered_df = filtered_df_Home df dr vs ss bs';
        class_rows = filtered_data_classes_df (explode df) filtered_df
    in set (map row_Name class_rows) \<subseteq> set (map Name filtered_df)
       \<and> (\<forall>r \<in> set filtered_df. DataClasses r \<noteq> [] \<longrightarrow> (\<exists>c. (r, Some c) \<in> set class_rows)))"
  unfolding Let_def
  using class_rows_membership [OF set_filtered_df_app [of df "explode df" dr vs ss bs sel]]
    class_rows_membership [OF set_filtered_df_Home [of df dr vs ss bs']]
  by (rule conjI)


theorem class_rows_round_trip_witness:
  "filtered_df_app [breach_A, breach_B, breach_C] (explode [breach_A, breach_B, breach_C])
       [] [] [] [Some ''Massive (>50M)''] [] = [breach_C]
   \<and> breach_C \<in> set [breach_C]
   \<and> DataClasses breach_C \<noteq> []
   \<and> (\<exists>c. (breach_C, Some c) \<in>
          set (filtered_data_classes_df (explode [breach_A, breach_B, breach_C]) [breach_C]))
   \<and> set (map row_Name
          (filtered_data_classes_df (explode [breach_A, breach_B, breach_C]) [breach_C]))
        \<subseteq> set (map Name [breach_C])"
proof -
  have f: "filtered_df_app [breach_A, breach_B, breach_C]
      (explode [breach_A, breach_B, breach_C]) [] [] [] [Some ''Massive (>50M)''] [] = [breach_C]"
    by code_simp
  have m: "breach_C \<in> set [breach_C]"
    by simp
  have n: "DataClasses breach_C \<noteq> []"
    by (simp add: breach_C_def)
  have "set (map row_Name
          (filtered_data_classes_df (explode [breach_A, breach_B, breach_C]) [breach_C]))
        \<subseteq> set (map Name [breach_C])
     \<and> (\<forall>r \<in> set [breach_C]. DataClasses r \<noteq> [] \<longrightarrow> (\<exists>c. (r, Some c) \<in>
          set (filtered_data_classes_df (explode [breach_A, breach_B, breach_C]) [breach_C])))"
    using class_rows_round_trip [where df = "[breach_A, breach_B, breach_C]" and dr = "[]"
        and vs = "[]" and ss = "[]" and bs = "[Some ''Massive (>50M)'']" and sel = "[]"
        and bs' = "[]"]
    unfolding Let_def f by (rule conjunct1)
  with m n f show ?thesis
    by blast
qed

section \<open>The default filters\<close>

lemma date_le_refl: "date_le a a"
  by (simp add: date_le_def)

lemma date_le_total: "date_le a b \<or> date_le b a"
  by (auto simp: date_le_def)

lemma date_le_trans: "date_le a b \<Longrightarrow> date_le b c \<Longrightarrow> date_le a c"
  by (auto simp: date_le_def)

lemma fold_min_date:
  "date_le (fold (\<lambda>x m. if date_le (BreachDate x) m then BreachDate x else m) rs m0) m0
   \<and> list_all (\<lambda>x. date_le (fold (\<lambda>x m. if date_le (BreachDate x) m then BreachDate x else m) rs m0)
         (BreachDate x)) rs"
proof (induction rs arbitrary: m0)
  case Nil
  show ?case by (simp add: date_le_refl)
next
  case (Cons r rs)
  let ?f = "\<lambda>x m. if date_le (BreachDate x) m then BreachDate x else m"
  let ?m1 = "?f r m0"
  have step: "date_le ?m1 m0 \<and> date_le ?m1 (BreachDate r)"
    using date_le_total [of "BreachDate r" m0] by (auto simp: date_le_refl)
  from Cons.IH [of ?m1]
  have ih: "date_le (fold ?f rs ?m1) ?m1"
    and ih2: "list_all (\<lambda>x. date_le (fold ?f rs ?m1) (BreachDate x)) rs"
    by simp_all
  from ih step have "date_le (fold ?f rs ?m1) m0" "date_le (fold ?f rs ?m1) (BreachDate r)"
    by (blast intro: date_le_trans)+
  with ih2 show ?case
    by simp
qed

lemma fold_max_date:
  "date_le m0 (fold (\<lambda>x m. if date_le m (BreachDate x) then BreachDate x else m) rs m0)
   \<and> list_all (\<lambda>x. date_le (BreachDate x)
         (fold (\<lambda>x m. if date_le m (BreachDate x) then BreachDate x else m) rs m0)) rs"
proof (induction rs arbitrary: m0)
  case Nil
  show ?case by (simp add: date_le_refl)
next
  case (Cons r rs)
  let ?f = "\<lambda>x m. if date_le m (BreachDate x) then BreachDate x else m"
  let ?m1 = "?f r m0"
  have step: "date_le m0 ?m1 \<and> date_le (BreachDate r) ?m1"
    using date_le_total [of "BreachDate r" m0] by (auto simp: date_le_refl)
  from Cons.IH [of ?m1]
  have ih: "date_le ?m1 (fold ?f rs ?m1)"
    and ih2: "list_all (\<lambda>x. date_le (BreachDate x) (fold ?f rs ?m1)) rs"
    by simp_all
  from ih step have "date_le m0 (fold ?f rs ?m1)" "date_le (BreachDate r) (fold ?f rs ?m1)"
    by (blast intro: date_le_trans)+
  with ih2 show ?case
    by simp
qed

lemma min_date_least: "min_date df = Some lo \<Longrightarrow> list_all (\<lambda>r. date_le lo (BreachDate r)) df"
proof (cases df)
  case Nil
  then show "min_date df = Some lo \<Longrightarrow> ?thesis" by simp
next
  case (Cons r rs)
  assume "min_date df = Some lo"
  with Cons fold_min_date [where rs = rs and ?m0.0 = "BreachDate r"] show ?thesis
    by auto
qed

lemma max_date_greatest: "max_date df = Some hi \<Longrightarrow> list_all (\<lambda>r. date_le (BreachDate r) hi) df"
proof (cases df)
  case Nil
  then show "max_date df = Some hi \<Longrightarrow> ?thesis" by simp
next
  case (Cons r rs)
  assume "max_date df = Some hi"
  with Cons fold_max_date [where rs = rs and ?m0.0 = "BreachDate r"] show ?thesis
    by auto
qed

lemma default_date_range_full:
  "length (default_date_range df) = 2 \<longrightarrow>
     list_all (\<lambda>r. date_le (default_date_range df ! 0) (BreachDate r) \<and>
                    date_le (BreachDate r) (default_date_range df ! 1)) df"
proof (cases "min_date df")
  case None
  then show ?thesis by (simp add: default_date_range_def)
next
  case lo: (Some lo)
  show ?thesis
  proof (cases "max_date df")
    case None
    with lo show ?thesis by (simp add: default_date_range_def)
  next
    case hi: (Some hi)
    from min_date_least [OF lo] max_date_greatest [OF hi] lo hi show ?thesis
      by (simp add: default_date_range_def list_all_iff)
  qed
qed

lemma filter_date_full:
  assumes "length dr = 2 \<longrightarrow>
     list_all (\<lambda>r. date_le (dr ! 0) (BreachDate r) \<and> date_le (BreachDate r) (dr ! 1)) df"
  shows "filter_date dr df = df"
  using assms by (simp add: filter_date_def list_all_iff)

lemma filter_verification_all:
  assumes "vs = [] \<or> (''Verified'' \<in> set vs \<and> ''Unverified'' \<in> set vs)"
  shows "filter_verification vs df = df"
  using assms by (auto simp: filter_verification_def)

lemma filter_sensitivity_all:
  assumes "ss = [] \<or> (''Sensitive'' \<in> set ss \<and> ''Non-Sensitive'' \<in> set ss)"
  shows "filter_sensitivity ss df = df"
  using assms by (auto simp: filter_sensitivity_def)

lemma filter_size_all:
  assumes "bs = [] \<or> set (map column df) \<subseteq> set bs"
  shows "filter_size column bs df = df"
  using assms by (auto simp: filter_size_def filter_id_conv)

lemma filter_data_classes_none: "filter_data_classes [] dcdf df = df"
  by (simp add: filter_data_classes_def)

lemma default_breach_size_all:
  "set (map BreachSizeCategory df) \<subseteq> set (default_breach_size_app df)
   \<and> set (map BreachSizeCategory_str df) \<subseteq> set (default_breach_size_Home df)"
  by (simp add: default_breach_size_app_def default_breach_size_Home_def set_unique)

text \<open>
  C6. With every selection at its default the filter returns the records unchanged: a
  date range that covers all breach dates (the default, from the first to the last date,
  does; so does a range still being picked), both or neither verification label, both
  or neither sensitivity label, all or none of the size categories, and no data class.
  The search box is not part of the filter.
\<close>

theorem default_filter_identity:
  assumes "length dr = 2 \<longrightarrow>
     list_all (\<lambda>r. date_le (dr ! 0) (BreachDate r) \<and> date_le (BreachDate r) (dr ! 1)) df"
    and "vs = [] \<or> (''Verified'' \<in> set vs \<and> ''Unverified'' \<in> set vs)"
    and "ss = [] \<or> (''Sensitive'' \<in> set ss \<and> ''Non-Sensitive'' \<in> set ss)"
    and "bs = [] \<or> set (map BreachSizeCategory df) \<subseteq> set bs"
    and "bs' = [] \<or> set (map BreachSizeCategory_str df) \<subseteq> set bs'"
  shows "filtered_df_app df (explode df) dr vs ss bs [] = df
    \<and> filtered_df_Home df dr vs ss bs' = df"
  by (simp add: filtered_df_app_def filtered_df_Home_def filter_date_full [OF assms(1)]
      filter_verification_all [OF assms(2)] filter_sensitivity_all [OF assms(3)]
      filter_size_all [OF assms(4)] filter_size_all [OF assms(5)] filter_data_classes_none)

theorem default_filter_identity_witness:
  "default_date_range [breach_A, breach_B, breach_C, breach_Z] = [Date 2019 5 17, Date 2023 2 28]
   \<and> list_all (\<lambda>r. date_le (Date 2019 5 17) (BreachDate r) \<and> date_le (BreachDate r) (Date 2023 2 28))
        [breach_A, breach_B, breach_C, breach_Z]
   \<and> set (map BreachSizeCategory [breach_A, breach_B, breach_C, breach_Z])
        \<subseteq> set (default_breach_size_app [breach_A, breach_B, breach_C, breach_Z])
   \<and> set (map BreachSizeCategory_str [breach_A, breach_B, breach_C, breach_Z])
        \<subseteq> set (default_breach_size_Home [breach_A, breach_B, breach_C, breach_Z])
   \<and> filtered_df_app [breach_A, breach_B, breach_C, breach_Z]
        (explode [breach_A, breach_B, breach_C, breach_Z])
        (default_date_range [breach_A, breach_B, breach_C, breach_Z])
        [] [''Sensitive'', ''Non-Sensitive'']
        (default_breach_size_app [breach_A, breach_B, breach_C, breach_Z]) []
      = [breach_A, breach_B, breach_C, breach_Z]
   \<and> filtered_df_Home [breach_A, breach_B, breach_C, breach_Z]
        (default_date_range [breach_A, breach_B, breach_C, breach_Z])
        [] [''Sensitive'', ''Non-Sensitive'']
        (default_breach_size_Home [breach_A, breach_B, breach_C, breach_Z])
      = [breach_A, breach_B, breach_C, breach_Z]"
proof -
  define D where "D = [breach_A, breach_B, breach_C, breach_Z]"
  have d: "default_date_range D = [Date 2019 5 17, Date 2023 2 28]"
    unfolding D_def by code_simp
  have l: "list_all (\<lambda>r. date_le (Date 2019 5 17) (BreachDate r) \<and>
              date_le (BreachDate r) (Date 2023 2 28)) D"
    unfolding D_def by code_simp
  have h1: "length (default_date_range D) = 2 \<longrightarrow>
     list_all (\<lambda>r. date_le (default_date_range D ! 0) (BreachDate r) \<and>
                    date_le (BreachDate r) (default_date_range D ! 1)) D"
    using l by (simp add: d)
  have h2: "([] :: string list) = [] \<or>
      (''Verified'' \<in> set ([] :: string list) \<and> ''Unverified'' \<in> set ([] :: string list))"
    by simp
  have h3: "[''Sensitive'', ''Non-Sensitive''] = [] \<or>
      (''Sensitive'' \<in> set [''Sensitive'', ''Non-Sensitive''] \<and>
       ''Non-Sensitive'' \<in> set [''Sensitive'', ''Non-Sensitive''])"
    by simp
  have s4: "set (map BreachSizeCategory D) \<subseteq> set (default_breach_size_app D)"
    and s5: "set (map BreachSizeCategory_str D) \<subseteq> set (default_breach_size_Home D)"
    using default_breach_size_all [of D] by simp_all
  from s4 have h4: "default_breach_size_app D = [] \<or>
      set (map BreachSizeCategory D) \<subseteq> set (default_breach_size_app D)" ..
  from s5 have h5: "default_breach_size_Home D = [] \<or>
      set (map BreachSizeCategory_str D) \<subseteq> set (default_breach_size_Home D)" ..
  from default_filter_identity [OF h1 h2 h3 h4 h5] d l s4 s5 show ?thesis
    unfolding D_def by blast
qed

section \<open>Percentages\<close>

lemma round_half_even_near: "\<bar>of_int (round_half_even x) - x\<bar> \<le> 1 / 2"
proof -
  define f where "f = \<lfloor>x\<rfloor>"
  define d where "d = x - of_int f"
  have d0: "0 \<le> d" and d1: "d < 1"
    unfolding d_def f_def by linarith+
  have r: "round_half_even x =
      (if d < 1 / 2 then f else if 1 / 2 < d then f + 1 else if even f then f else f + 1)"
    by (simp add: round_half_even_def Let_def f_def d_def)
  have c: "(round_half_even x = f \<and> d \<le> 1 / 2) \<or> (round_half_even x = f + 1 \<and> 1 / 2 \<le> d)"
    unfolding r by auto
  then show ?thesis
  proof
    assume "round_half_even x = f \<and> d \<le> 1 / 2"
    then show ?thesis
      using d0 d_def by (simp add: abs_if)
  next
    assume "round_half_even x = f + 1 \<and> 1 / 2 \<le> d"
    then show ?thesis
      using d1 d_def by (simp add: abs_if)
  qed
qed

lemma round1_near: "\<bar>round1 x - x\<bar> \<le> 1 / 20"
proof -
  define y :: rat where "y = of_int (round_half_even (x * 10))"
  have "\<bar>y - x * 10\<bar> \<le> 1 / 2"
    unfolding y_def by (rule round_half_even_near)
  then have "\<bar>y / 10 - x\<bar> \<le> 1 / 20"
    by (simp add: abs_if split: if_splits)
  then show ?thesis
    by (simp add: round1_def y_def)
qed

lemma sum_list_round1:
  "\<bar>sum_list (map (\<lambda>z. round1 (g z)) zs) - sum_list (map g zs)\<bar> \<le> of_nat (length zs) / 20"
proof (induction zs)
  case Nil
  show ?case by simp
next
  case (Cons z zs)
  define a where "a = round1 (g z) - g z"
  define b where "b = sum_list (map (\<lambda>z. round1 (g z)) zs) - sum_list (map g zs)"
  have a: "\<bar>a\<bar> \<le> 1 / 20"
    unfolding a_def by (rule round1_near)
  have b: "\<bar>b\<bar> \<le> of_nat (length zs) / 20"
    unfolding b_def by (rule Cons.IH)
  have "sum_list (map (\<lambda>z. round1 (g z)) (z # zs)) - sum_list (map g (z # zs)) = a + b"
    by (simp add: a_def b_def)
  moreover have "\<bar>a + b\<bar> \<le> 1 / 20 + of_nat (length zs) / 20"
    using a b by linarith
  moreover have "(1 :: rat) / 20 + of_nat (length zs) / 20 = of_nat (length (z # zs)) / 20"
    by (simp add: add_divide_distrib)
  ultimately show ?case
    by simp
qed

lemma sum_list_share:
  fixes S :: rat
  shows "sum_list (map (\<lambda>p. of_int (snd p) / S * 100) table) =
     of_int (sum_list (map snd table)) / S * 100"
  by (induction table) (simp_all add: add_divide_distrib distrib_right)

lemma Percentage_sum:
  assumes "0 < sum_list (map snd table)"
  shows "\<bar>sum_list (Percentage table) - 100\<bar> \<le> of_nat (length table) / 20"
proof -
  define S :: rat where "S = of_int (sum_list (map snd table))"
  have S: "S \<noteq> 0"
    using assms by (simp add: S_def)
  have "sum_list (map (\<lambda>p. of_int (snd p) / S * 100) table) = S / S * 100"
    unfolding S_def by (rule sum_list_share)
  also have "\<dots> = 100"
    using S by simp
  finally have e: "sum_list (map (\<lambda>p. of_int (snd p) / S * 100) table) = 100" .
  have p: "Percentage table = map (\<lambda>p. round1 (of_int (snd p) / S * 100)) table"
    by (simp add: Percentage_def S_def)
  from sum_list_round1 [of "\<lambda>p. of_int (snd p) / S * 100" table]
  show ?thesis
    unfolding p e .
qed

lemma sum_list_pos_int:
  fixes xs :: "int list"
  assumes "xs \<noteq> []" and "list_all (\<lambda>x. 0 < x) xs"
  shows "0 < sum_list xs"
  using assms
proof (induction xs)
  case Nil
  then show ?case by simp
next
  case (Cons x xs)
  then show ?case
    by (cases xs) auto
qed

lemma value_counts_positive: "list_all (\<lambda>p. 0 < snd p) (value_counts xs)"
proof -
  have "0 < snd p" if "p \<in> set (value_counts xs)" for p
  proof -
    from that obtain k where k: "k \<in> set xs" and p: "p = (k, int (count_list xs k))"
      unfolding set_value_counts by blast
    from k have "count_list xs k \<noteq> 0"
      unfolding count_list_0_iff by simp
    then have "0 < count_list xs k"
      by simp
    with p show ?thesis by simp
  qed
  then show ?thesis
    by (simp add: list_all_iff)
qed

lemma top_data_classes_positive:
  assumes "top_data_classes (data_class_counts class_rows) \<noteq> []"
  shows "0 < sum_list (map snd (top_data_classes (data_class_counts class_rows)))"
proof (rule sum_list_pos_int)
  show "map snd (top_data_classes (data_class_counts class_rows)) \<noteq> []"
    using assms by simp
  have "list_all (\<lambda>p. 0 < snd p) (data_class_counts class_rows)"
    unfolding data_class_counts_def by (rule value_counts_positive)
  then have "list_all (\<lambda>p. 0 < snd p) (top_data_classes (data_class_counts class_rows))"
    unfolding top_data_classes_def list_all_iff by (blast dest: in_set_takeD)
  then show "list_all (\<lambda>x. 0 < x) (map snd (top_data_classes (data_class_counts class_rows)))"
    by (simp add: list_all_iff)
qed

text \<open>
  The percentages the Data Classes page shows for one breach with two data classes: each
  class is in 100 percent of the breaches, which differs from the share of the shown
  counts (50 percent each), and the column sums to 200.
\<close>

theorem percentage_of_breaches_counterexample:
  "data_class_counts (filtered_data_classes_df (explode [breach_B]) [breach_B])
      = [(''Passwords'', 1), (''Emails'', 1)]
   \<and> Percentage_of_breaches [(''Passwords'', 1), (''Emails'', 1)] [breach_B] = [100, 100]
   \<and> Percentage [(''Passwords'', 1), (''Emails'', 1 :: int)] = [50, 50]
   \<and> sum_list (Percentage_of_breaches [(''Passwords'', 1), (''Emails'', 1)] [breach_B]) = 200
   \<and> \<not> \<bar>sum_list (Percentage_of_breaches [(''Passwords'', 1), (''Emails'', 1)] [breach_B]) - 100\<bar>
         \<le> 1 / 2"
  by code_simp

text \<open>
  C2 (as amended). In \<^verbatim>\<open>Home.py\<close> and \<^verbatim>\<open>app.py\<close> the percentage of a row of the top-10
  table is its count divided by the sum of the counts shown, a sum that is positive for a
  non-empty table: the rounded percentages sum to 100 within 0.05 for each row, so within
  0.5. The Data Classes page divides each count of its table by the number of filtered
  records instead.
\<close>

theorem top_percentages_sum_to_100:
  "(top_data_classes (data_class_counts class_rows) \<noteq> [] \<longrightarrow>
      (let top = top_data_classes (data_class_counts class_rows)
       in 0 < sum_list (map snd top)
          \<and> Percentage top =
              map (\<lambda>p. round1 (of_int (snd p) / of_int (sum_list (map snd top)) * 100)) top
          \<and> \<bar>sum_list (Percentage top) - 100\<bar> \<le> of_nat (length top) / 20
          \<and> \<bar>sum_list (Percentage top) - 100\<bar> \<le> 1 / 2))
   \<and> Percentage_of_breaches table filtered_df =
       map (\<lambda>p. round1 (of_int (snd p) / of_int (int (length filtered_df)) * 100)) table"
proof (intro conjI impI)
  assume ne: "top_data_classes (data_class_counts class_rows) \<noteq> []"
  define top where "top = top_data_classes (data_class_counts class_rows)"
  have pos: "0 < sum_list (map snd top)"
    unfolding top_def using ne by (rule top_data_classes_positive)
  have near: "\<bar>sum_list (Percentage top) - 100\<bar> \<le> of_nat (length top) / 20"
    using pos by (rule Percentage_sum)
  have "length top \<le> 10"
    by (simp add: top_def top_data_classes_def)
  then have "(of_nat (length top) :: rat) \<le> 10"
    by (metis of_nat_le_iff of_nat_numeral)
  then have "(of_nat (length top) :: rat) / 20 \<le> 1 / 2"
    by simp
  with near have half: "\<bar>sum_list (Percentage top) - 100\<bar> \<le> 1 / 2"
    by linarith
  have def: "Percentage top =
      map (\<lambda>p. round1 (of_int (snd p) / of_int (sum_list (map snd top)) * 100)) top"
    by (simp add: Percentage_def)
  from pos def near half
  show "let top = top_data_classes (data_class_counts class_rows)
       in 0 < sum_list (map snd top)
          \<and> Percentage top =
              map (\<lambda>p. round1 (of_int (snd p) / of_int (sum_list (map snd top)) * 100)) top
          \<and> \<bar>sum_list (Percentage top) - 100\<bar> \<le> of_nat (length top) / 20
          \<and> \<bar>sum_list (Percentage top) - 100\<bar> \<le> 1 / 2"
    unfolding Let_def top_def by (intro conjI)
next
  show "Percentage_of_breaches table filtered_df =
       map (\<lambda>p. round1 (of_int (snd p) / of_int (int (length filtered_df)) * 100)) table"
    by (simp add: Percentage_of_breaches_def)
qed

theorem top_percentages_sum_to_100_witness:
  "top_data_classes (data_class_counts (explode [breach_A, breach_B, breach_C])) \<noteq> []
   \<and> \<bar>sum_list (Percentage
          (top_data_classes (data_class_counts (explode [breach_A, breach_B, breach_C])))) - 100\<bar>
        \<le> 1 / 2"
proof -
  have ne: "top_data_classes (data_class_counts (explode [breach_A, breach_B, breach_C])) \<noteq> []"
    by code_simp
  from top_percentages_sum_to_100 [where class_rows = "explode [breach_A, breach_B, breach_C]"
      and table = "[] :: (string \<times> int) list" and filtered_df = "[]"] ne
  have "\<bar>sum_list (Percentage
          (top_data_classes (data_class_counts (explode [breach_A, breach_B, breach_C])))) - 100\<bar>
        \<le> 1 / 2"
    unfolding Let_def by blast
  with ne show ?thesis ..
qed

section \<open>An empty filtered set\<close>

text \<open>
  C1. A data set with the one verified breach \<open>A\<close>, and only \<^verbatim>\<open>Unverified\<close> selected in the
  sidebar: the filtered set is empty. The frequency table, its top rows, the percentages
  and the largest rows are empty, and \<^verbatim>\<open>app.py\<close> shows \<^verbatim>\<open>N/A\<close>; but \<^verbatim>\<open>Home.py\<close> reads row
  \<open>0\<close> of the empty table and raises \<^verbatim>\<open>IndexError\<close>, and the Timeline page divides by the
  number of years, which is zero.
\<close>

theorem empty_filtered_set:
  "filtered_df_Home [breach_A] (default_date_range [breach_A]) [''Unverified'']
       [''Sensitive'', ''Non-Sensitive''] (default_breach_size_Home [breach_A]) = []
   \<and> data_class_counts (filtered_data_classes_df (explode [breach_A]) []) = []
   \<and> top_data_classes (data_class_counts (filtered_data_classes_df (explode [breach_A]) [])) = []
   \<and> Percentage (top_data_classes
         (data_class_counts (filtered_data_classes_df (explode [breach_A]) []))) = []
   \<and> nlargest 10 [] = []
   \<and> insights_app cy [] (filtered_data_classes_df (explode [breach_A]) [])
       = (''N/A'', (''N/A'', 0), ''decreasing'')
   \<and> insights_Home cy [] (filtered_data_classes_df (explode [breach_A]) []) = Inl IndexError
   \<and> yearly_avg [] = Inl ZeroDivisionError"
proof -
  have f: "filtered_df_Home [breach_A] (default_date_range [breach_A]) [''Unverified'']
       [''Sensitive'', ''Non-Sensitive''] (default_breach_size_Home [breach_A]) = []"
    by code_simp
  have r: "filtered_data_classes_df (explode [breach_A]) [] = []"
    by (simp add: filtered_data_classes_df_def)
  have c: "data_class_counts [] = []"
    by (simp add: data_class_counts_def value_counts_def frequency_table_def dropna_def)
  have t: "top_data_classes [] = ([] :: (string \<times> int) list)"
    by (simp add: top_data_classes_def)
  have p: "Percentage ([] :: (string \<times> int) list) = []"
    by (simp add: Percentage_def)
  have n: "nlargest 10 [] = []"
    by (simp add: nlargest_def)
  have tr: "trend_text cy [] = ''decreasing''"
    by (simp add: trend_text_def recent_count_def previous_count_def)
  have a: "insights_app cy [] [] = (''N/A'', (''N/A'', 0), ''decreasing'')"
    by (simp add: insights_app_def c tr most_common_data_class_app_def largest_breach_app_def
        nlargest_def)
  have h: "insights_Home cy [] [] = Inl IndexError"
    by (simp add: insights_Home_def c most_common_data_class_Home_def)
  have y: "yearly_avg [] = Inl ZeroDivisionError"
    by (simp add: yearly_avg_def yearly_breaches_def)
  show ?thesis
    unfolding r c t p by (intro conjI f refl n a h y)
qed

section \<open>The order of equal counts does not matter\<close>

text \<open>
  The results on the empty table and on the percentages hold for every table
  \<^verbatim>\<open>value_counts\<close> may return, whatever the order of equal counts.
\<close>

lemma value_counts_of_empty: "value_counts_of [] table \<longleftrightarrow> table = []"
  by (auto simp: value_counts_of_def frequency_table_def)

lemma value_counts_of_positive:
  assumes "value_counts_of xs table"
  shows "list_all (\<lambda>p. 0 < snd p) table"
proof -
  from assms have "set table = set (value_counts xs)"
    by (simp add: value_counts_of_def value_counts_def)
  with value_counts_positive [of xs] show ?thesis
    by (simp add: list_all_iff)
qed

lemma Percentage_sum_any_order:
  assumes t: "value_counts_of xs table" and ne: "take 10 table \<noteq> []"
  shows "\<bar>sum_list (Percentage (take 10 table)) - 100\<bar> \<le> 1 / 2"
proof -
  have "list_all (\<lambda>p. 0 < snd p) (take 10 table)"
    using value_counts_of_positive [OF t] unfolding list_all_iff by (blast dest: in_set_takeD)
  then have "list_all (\<lambda>x. 0 < x) (map snd (take 10 table))"
    by (simp add: list_all_iff)
  moreover have "map snd (take 10 table) \<noteq> []"
    using ne by simp
  ultimately have "0 < sum_list (map snd (take 10 table))"
    by (rule sum_list_pos_int [rotated])
  then have "\<bar>sum_list (Percentage (take 10 table)) - 100\<bar> \<le> of_nat (length (take 10 table)) / 20"
    by (rule Percentage_sum)
  moreover have "(of_nat (length (take 10 table)) :: rat) \<le> 10"
    by (metis length_take min.cobounded2 of_nat_le_iff of_nat_numeral)
  ultimately show ?thesis
    by linarith
qed

lemma percentage_of_breaches_other_order:
  "value_counts_of [''Passwords'', ''Emails''] [(''Emails'', 1), (''Passwords'', 1)]
   \<and> Percentage_of_breaches [(''Emails'', 1), (''Passwords'', 1)] [breach_B] = [100, 100]"
proof
  show "value_counts_of [''Passwords'', ''Emails''] [(''Emails'', 1), (''Passwords'', 1)]"
    by (simp add: value_counts_of_def frequency_table_def insert_commute)
  show "Percentage_of_breaches [(''Emails'', 1), (''Passwords'', 1)] [breach_B] = [100, 100]"
    by code_simp
qed

end
